theory Spec2Isabelle
  imports Main
begin

section \<open>Errors\<close>

text \<open>
  Go errors as values. \<open>Wrapped m e\<close> is \<^verbatim>\<open>fmt.Errorf("m: %w", e)\<close>,
  \<open>TerminalError e\<close> is controller-runtime's \<^verbatim>\<open>reconcile.TerminalError(e)\<close> and
  \<open>Aggregate es\<close> is apimachinery's \<^verbatim>\<open>NewAggregate(es)\<close>. \<open>ErrNoCurrent\<close> is the sentinel
  \<^verbatim>\<open>intreconcile.ErrNoCurrent\<close>.
\<close>

datatype error =
    ErrNoCurrent
  | AccessDeniedError string
  | NotFoundError string
  | OtherError string
  | Wrapped string error
  | TerminalError error
  | Aggregate "error list"

text \<open>The errors reached from an error by unwrapping, the error itself first.\<close>

fun chain :: "error \<Rightarrow> error list" where
  "chain (Wrapped m e) = Wrapped m e # chain e"
| "chain (TerminalError e) = TerminalError e # chain e"
| "chain (Aggregate es) = Aggregate es # concat (map chain es)"
| "chain e = [e]"

text \<open>\<^verbatim>\<open>errors.Is(err, intreconcile.ErrNoCurrent)\<close>\<close>

definition IsNoCurrent :: "error \<Rightarrow> bool" where
  "IsNoCurrent e = (ErrNoCurrent \<in> set (chain e))"

text \<open>\<^verbatim>\<open>errors.Is(err, reconcile.TerminalError(nil))\<close>: some error of the chain is terminal.\<close>

fun isTerminalError :: "error \<Rightarrow> bool" where
  "isTerminalError (TerminalError e) = True"
| "isTerminalError e = False"

definition IsTerminal :: "error \<Rightarrow> bool" where
  "IsTerminal e = list_ex isTerminalError (chain e)"

text \<open>\<^verbatim>\<open>acl.IsAccessDenied(err)\<close>\<close>

fun isAccessDeniedError :: "error \<Rightarrow> bool" where
  "isAccessDeniedError (AccessDeniedError m) = True"
| "isAccessDeniedError e = False"

definition IsAccessDenied :: "error \<Rightarrow> bool" where
  "IsAccessDenied e = list_ex isAccessDeniedError (chain e)"

text \<open>\<^verbatim>\<open>apierrors.IsNotFound(err)\<close> and \<^verbatim>\<open>client.IgnoreNotFound(err)\<close>\<close>

fun isNotFoundError :: "error \<Rightarrow> bool" where
  "isNotFoundError (NotFoundError m) = True"
| "isNotFoundError e = False"

definition IsNotFound :: "error \<Rightarrow> bool" where
  "IsNotFound e = list_ex isNotFoundError (chain e)"

definition IgnoreNotFound :: "error \<Rightarrow> error option" where
  "IgnoreNotFound e = (if IsNotFound e then None else Some e)"

text \<open>
  \<^verbatim>\<open>err.Error()\<close>. The text of the sentinel is declared outside the controller; an
  aggregate is rendered as the bracketed list of its members' messages.
\<close>

fun join :: "string \<Rightarrow> string list \<Rightarrow> string" where
  "join sep [] = []"
| "join sep [x] = x"
| "join sep (x # y # ys) = x @ sep @ join sep (y # ys)"

fun Error :: "error \<Rightarrow> string" where
  "Error ErrNoCurrent = ''no current release''"
| "Error (AccessDeniedError m) = m"
| "Error (NotFoundError m) = m"
| "Error (OtherError m) = m"
| "Error (Wrapped m e) = m @ '': '' @ Error e"
| "Error (TerminalError e) = ''terminal error: '' @ Error e"
| "Error (Aggregate es) = ''['' @ join '', '' (map Error es) @ '']''"

section \<open>Kubernetes objects\<close>

record NamespacedName =
  RefNamespace :: string
  RefName :: string

text \<open>\<^verbatim>\<open>types.NamespacedName.String()\<close>\<close>

definition String :: "NamespacedName \<Rightarrow> string" where
  "String n = RefNamespace n @ ''/'' @ RefName n"

definition quoted :: "string \<Rightarrow> string" where
  "quoted s = [CHR 0x27] @ s @ [CHR 0x27]"

record ObjectMeta =
  Namespace :: string
  Name :: string
  Generation :: int
  DeletionTimestamp :: "nat option"
  Finalizers :: "string list"

text \<open>\<^verbatim>\<open>client.ObjectKeyFromObject\<close>\<close>

definition ObjectKey :: "ObjectMeta \<Rightarrow> NamespacedName" where
  "ObjectKey m = \<lparr>RefNamespace = Namespace m, RefName = Name m\<rparr>"

subsection \<open>Conditions\<close>

datatype ConditionType =
  ReadyCondition | ReconcilingCondition | StalledCondition
  | ReleasedCondition | RemediatedCondition | TestSuccessCondition

datatype ConditionStatus = ConditionTrue | ConditionFalse | ConditionUnknown

record Condition =
  CondStatus :: ConditionStatus
  Reason :: string
  Message :: string

type_synonym Conditions = "ConditionType \<rightharpoonup> Condition"

definition DependencyNotReadyReason :: string where
  "DependencyNotReadyReason = ''DependencyNotReady''"

definition ArtifactFailedReason :: string where
  "ArtifactFailedReason = ''ArtifactFailed''"

definition UninstallFailedReason :: string where
  "UninstallFailedReason = ''UninstallFailed''"

definition AccessDeniedReason :: string where
  "AccessDeniedReason = ''AccessDenied''"

definition ProgressingReason :: string where
  "ProgressingReason = ''Progressing''"

definition EventSeverityInfo :: string where
  "EventSeverityInfo = ''info''"

definition HelmReleaseFinalizer :: string where
  "HelmReleaseFinalizer = ''finalizers.fluxcd.io''"

text \<open>
  The condition helpers of \<^verbatim>\<open>fluxcd/pkg/runtime/conditions\<close>, on the condition set of
  an object. A condition set holds at most one condition of a type; transition times
  are left out.
\<close>

definition Delete :: "Conditions \<Rightarrow> ConditionType \<Rightarrow> Conditions" where
  "Delete cs t = cs(t := None)"

definition MarkTrue :: "Conditions \<Rightarrow> ConditionType \<Rightarrow> string \<Rightarrow> string \<Rightarrow> Conditions" where
  "MarkTrue cs t reason msg = cs(t \<mapsto> \<lparr>CondStatus = ConditionTrue, Reason = reason, Message = msg\<rparr>)"

definition MarkFalse :: "Conditions \<Rightarrow> ConditionType \<Rightarrow> string \<Rightarrow> string \<Rightarrow> Conditions" where
  "MarkFalse cs t reason msg = cs(t \<mapsto> \<lparr>CondStatus = ConditionFalse, Reason = reason, Message = msg\<rparr>)"

definition MarkStalled :: "Conditions \<Rightarrow> string \<Rightarrow> string \<Rightarrow> Conditions" where
  "MarkStalled cs reason msg = MarkTrue (Delete cs ReconcilingCondition) StalledCondition reason msg"

definition MarkReconciling :: "Conditions \<Rightarrow> string \<Rightarrow> string \<Rightarrow> Conditions" where
  "MarkReconciling cs reason msg = MarkTrue (Delete cs StalledCondition) ReconcilingCondition reason msg"

definition IsTrue :: "Conditions \<Rightarrow> ConditionType \<Rightarrow> bool" where
  "IsTrue cs t = (case cs t of None \<Rightarrow> False | Some c \<Rightarrow> CondStatus c = ConditionTrue)"

definition IsReady :: "Conditions \<Rightarrow> bool" where
  "IsReady cs = IsTrue cs ReadyCondition"

subsection \<open>The release\<close>

record NamespacedObjectReference =
  DepNamespace :: string
  DepName :: string

record KubeConfigReference =
  SecretRefName :: string
  SecretRefKey :: string

record HelmReleaseSpec =
  Suspend :: bool
  DependsOn :: "NamespacedObjectReference list"
  KubeConfig :: "KubeConfigReference option"

text \<open>
  Modelled from the spec: the declaration of \<^verbatim>\<open>v2.ReleaseHistory\<close> is not among the
  sources. Section 3 of the specification gives the status a \<open>currentDeployment\<close>, an
  optional pointer to the live deployment, absent iff nothing is installed, and a
  \<open>history\<close> of attempts; the zero value \<^verbatim>\<open>v2.ReleaseHistory{}\<close> has neither.
\<close>

record Deployment =
  DeployedNamespace :: string
  DeployedName :: string
  DeployedChartName :: string
  DeployedChartVersion :: string
  DeployedConfigDigest :: string

datatype ActionKind = Install | Upgrade | Test | Rollback | Uninstall

datatype Outcome = Succeeded | Failed

record Attempt =
  AttemptRevision :: string
  AttemptDigest :: string
  AttemptAction :: ActionKind
  AttemptOutcome :: Outcome

record ReleaseHistory =
  currentDeployment :: "Deployment option"
  history :: "Attempt list"

definition emptyReleaseHistory :: ReleaseHistory where
  "emptyReleaseHistory = \<lparr>currentDeployment = None, history = []\<rparr>"

record HelmReleaseStatus =
  ObservedGeneration :: int
  Conditions :: Conditions
  HelmChart :: string
  StorageNamespace :: string
  History :: ReleaseHistory
  InstallFailures :: int
  UpgradeFailures :: int
  Failures :: int
  LastAttemptedGeneration :: int
  LastAttemptedRevision :: string
  LastAttemptedConfigDigest :: string
  LastAttemptedValuesChecksum :: string

record HelmRelease =
  ObjectMeta :: ObjectMeta
  Spec :: HelmReleaseSpec
  Status :: HelmReleaseStatus

definition setConditions :: "(Conditions \<Rightarrow> Conditions) \<Rightarrow> HelmRelease \<Rightarrow> HelmRelease" where
  "setConditions f obj = obj\<lparr>Status := (Status obj)\<lparr>Conditions := f (Conditions (Status obj))\<rparr>\<rparr>"

subsection \<open>The chart object, the loaded chart and the values\<close>

record Artifact =
  URL :: string
  Revision :: string
  Digest :: string

text \<open>\<^verbatim>\<open>Artifact.HasRevision\<close>: the given revision is the artifact's.\<close>

definition HasRevision :: "Artifact \<Rightarrow> string \<Rightarrow> bool" where
  "HasRevision a revision = (Revision a = revision)"

record HelmChart =
  hcObjectMeta :: ObjectMeta
  hcObservedGeneration :: int
  hcConditions :: Conditions
  hcArtifact :: "Artifact option"
  hcInterval :: int

record Metadata =
  ChartName :: string
  Version :: string

record Chart =
  Metadata :: Metadata

type_synonym Values = "(string \<times> string) list"

subsection \<open>Results, handles and the objects a watch delivers\<close>

record Result =
  Requeue :: bool
  RequeueAfter :: int

definition zeroResult :: Result where
  "zeroResult = \<lparr>Requeue = False, RequeueAfter = 0\<rparr>"

definition IsZero :: "Result \<Rightarrow> bool" where
  "IsZero res = (res = zeroResult)"

record RestConfig =
  ImpersonateUserName :: string

datatype RESTClientGetter = RESTClientGetter nat

datatype ConfigFactory = ConfigFactory nat

datatype Secret = Secret nat

datatype Object = HelmChartObject HelmChart | HelmReleaseObject HelmRelease | OtherObject string

datatype PatchOption = WithFieldOwner string | WithOwnedConditions | WithStatusObservedGeneration

section \<open>The reconciler and its collaborators\<close>

text \<open>
  What a reconciliation does to its collaborators, in order: the chart object read, the
  values composed, the chart artifact loaded, the three reconcilers of
  \<^verbatim>\<open>internal/reconcile\<close> run (each with the release it was handed), an event
  emitted, the release patched. Reads of releases, secrets and service accounts, logging
  and metrics are not recorded.
\<close>

datatype action =
    ActGetChart NamespacedName
  | ActComposeValues
  | ActLoadChart string string
  | ActChartTemplate HelmRelease
  | ActUninstall HelmRelease
  | ActAtomicRelease HelmRelease Chart Values
  | ActEvent string string string
  | ActPatch HelmRelease "PatchOption list"

text \<open>
  The reconciler: its own fields (\<open>FieldManager\<close>, \<open>requeueDependency\<close>,
  \<open>GetClusterConfig\<close>), the answers of the embedded client (\<open>Get\<close>, \<open>List\<close>,
  \<open>Patch\<close>), the functions of other packages the controller calls, and the accessor
  methods of the API types, all of which are declared outside the controller. Each is a
  function of its arguments: the answer the collaborator gives during this reconciliation.
  A reconciler of \<^verbatim>\<open>internal/reconcile\<close> works on the release it is handed and returns
  it with its error.
\<close>

record HelmReleaseReconciler =
  FieldManager :: string
  requeueDependency :: int
  GetClusterConfig :: "error + RestConfig"
  GetHelmRelease :: "NamespacedName \<Rightarrow> error + HelmRelease"
  GetHelmChartObject :: "NamespacedName \<Rightarrow> error + HelmChart"
  GetSecret :: "NamespacedName \<Rightarrow> error + Secret"
  GetServiceAccount :: "NamespacedName \<Rightarrow> error option"
  ListHelmReleases :: "string \<Rightarrow> error + HelmRelease list"
  Patch :: "HelmRelease \<Rightarrow> PatchOption list \<Rightarrow> error option"
  AllowsAccessTo :: "HelmRelease \<Rightarrow> NamespacedName \<Rightarrow> error option"
  ChartValuesFromReferences :: "HelmRelease \<Rightarrow> error + Values"
  SecureLoadChartFromURL :: "string \<Rightarrow> string \<Rightarrow> error + Chart"
  ConfigFromSecret :: "Secret \<Rightarrow> string \<Rightarrow> error + RestConfig"
  NewMemoryRESTClientGetter :: "RestConfig \<Rightarrow> HelmRelease \<Rightarrow> RESTClientGetter"
  ToRESTConfig :: "RESTClientGetter \<Rightarrow> error + RestConfig"
  NewConfigFactory :: "RESTClientGetter \<Rightarrow> string \<Rightarrow> error + ConfigFactory"
  DigestValues :: "Values \<Rightarrow> string"
  HelmChartTemplateReconcile :: "HelmRelease \<Rightarrow> error option \<times> HelmRelease"
  UninstallReconcile :: "ConfigFactory \<Rightarrow> HelmRelease \<Rightarrow> error option \<times> HelmRelease"
  AtomicReleaseReconcile :: "ConfigFactory \<Rightarrow> HelmRelease \<Rightarrow> Chart \<Rightarrow> Values \<Rightarrow> error option \<times> HelmRelease"
  GetHelmChart :: "HelmReleaseStatus \<Rightarrow> string \<times> string"
  GetStorageNamespace :: "HelmRelease \<Rightarrow> string"
  GetReleaseNamespace :: "HelmRelease \<Rightarrow> string"
  GetReleaseName :: "HelmRelease \<Rightarrow> string"
  GetRequeueAfter :: "HelmRelease \<Rightarrow> int"

text \<open>What a function of the controller returns: result, error, the release as it left it, and what it did.\<close>

record outcome =
  result :: Result
  retErr :: "error option"
  object :: HelmRelease
  actions :: "action list"

section \<open>The controller\<close>

text \<open>
  The functions of \<^verbatim>\<open>internal/controller/helmrelease_controller.go\<close>. A function that
  changes the release it is given returns the changed release; a function that calls a
  collaborator returns the actions it performed.
\<close>

subsection \<open>checkDependencies\<close>

text \<open>
  The loop over \<^verbatim>\<open>obj.Spec.DependsOn\<close>: the first dependency that cannot be read, whose
  status is stale or whose Ready condition is not true ends it with an error.
\<close>

definition dependencyRef :: "HelmRelease \<Rightarrow> NamespacedObjectReference \<Rightarrow> NamespacedName" where
  "dependencyRef obj d =
     (let ref = \<lparr>RefNamespace = DepNamespace d, RefName = DepName d\<rparr>
      in if RefNamespace ref = [] then ref\<lparr>RefNamespace := Namespace (ObjectMeta obj)\<rparr> else ref)"

fun checkDependenciesLoop ::
  "HelmReleaseReconciler \<Rightarrow> HelmRelease \<Rightarrow> NamespacedObjectReference list \<Rightarrow> error option" where
  "checkDependenciesLoop r obj [] = None"
| "checkDependenciesLoop r obj (d # ds) =
     (let ref = dependencyRef obj d
      in case GetHelmRelease r ref of
           Inl err \<Rightarrow> Some (Wrapped (''unable to get '' @ quoted (String ref) @ '' dependency'') err)
         | Inr dHr \<Rightarrow>
             if Generation (ObjectMeta dHr) \<noteq> ObservedGeneration (Status dHr)
                \<or> \<not> IsTrue (Conditions (Status dHr)) ReadyCondition
             then Some (OtherError (''dependency '' @ quoted (String ref) @ '' is not ready''))
             else checkDependenciesLoop r obj ds)"

definition checkDependencies :: "HelmReleaseReconciler \<Rightarrow> HelmRelease \<Rightarrow> error option" where
  "checkDependencies r obj = checkDependenciesLoop r obj (DependsOn (Spec obj))"

subsection \<open>buildRESTClientGetter, getHelmChart, reconcileUninstall, reconcileChartTemplate\<close>

definition buildRESTClientGetter :: "HelmReleaseReconciler \<Rightarrow> HelmRelease \<Rightarrow> error + RESTClientGetter" where
  "buildRESTClientGetter r obj =
     (case KubeConfig (Spec obj) of
        Some kc \<Rightarrow>
          (let secretName = \<lparr>RefNamespace = Namespace (ObjectMeta obj), RefName = SecretRefName kc\<rparr>
           in case GetSecret r secretName of
                Inl err \<Rightarrow> Inl (Wrapped (''could not get KubeConfig secret '' @ quoted (String secretName)) err)
              | Inr secret \<Rightarrow>
                  (case ConfigFromSecret r secret (SecretRefKey kc) of
                     Inl err \<Rightarrow> Inl err
                   | Inr kubeConfig \<Rightarrow> Inr (NewMemoryRESTClientGetter r kubeConfig obj)))
      | None \<Rightarrow>
          (case GetClusterConfig r of
             Inl err \<Rightarrow> Inl (Wrapped ''could not get in-cluster REST config'' err)
           | Inr cfg \<Rightarrow> Inr (NewMemoryRESTClientGetter r cfg obj)))"

definition getHelmChart :: "HelmReleaseReconciler \<Rightarrow> HelmRelease \<Rightarrow> (error + HelmChart) \<times> action list" where
  "getHelmChart r obj =
     (let (namespace, name) = GetHelmChart r (Status obj);
          chartRef = \<lparr>RefNamespace = namespace, RefName = name\<rparr>
      in case AllowsAccessTo r obj chartRef of
           Some err \<Rightarrow> (Inl err, [])
         | None \<Rightarrow>
             (case GetHelmChartObject r chartRef of
                Inl err \<Rightarrow> (Inl err, [ActGetChart chartRef])
              | Inr hc \<Rightarrow> (Inr hc, [ActGetChart chartRef])))"

definition reconcileUninstall ::
  "HelmReleaseReconciler \<Rightarrow> RESTClientGetter \<Rightarrow> HelmRelease \<Rightarrow> error option \<times> HelmRelease \<times> action list" where
  "reconcileUninstall r getter obj =
     (case NewConfigFactory r getter (StorageNamespace (Status obj)) of
        Inl err \<Rightarrow>
          (Some err,
           setConditions (\<lambda>cs. MarkFalse cs ReadyCondition ''ConfigFactoryErr'' (Error err)) obj,
           [])
      | Inr cfg \<Rightarrow>
          (let (err, obj') = UninstallReconcile r cfg obj
           in (err, obj', [ActUninstall obj])))"

definition reconcileChartTemplate ::
  "HelmReleaseReconciler \<Rightarrow> HelmRelease \<Rightarrow> error option \<times> HelmRelease \<times> action list" where
  "reconcileChartTemplate r obj =
     (let (err, obj') = HelmChartTemplateReconcile r obj
      in (err, obj', [ActChartTemplate obj]))"

subsection \<open>The helpers of \<^verbatim>\<open>internal/action\<close>\<close>

text \<open>
  Modelled from the spec: \<^verbatim>\<open>action.ReleaseTargetChanged\<close> is not among the sources.
  Section 4.2: the target identity is the tuple (deployment namespace, release name as
  deployed, chart name), and the target has changed when the identity of the existing
  \<open>currentDeployment\<close> is not the new one. Without a current deployment there is no old
  target.
\<close>

definition ReleaseTargetChanged :: "HelmReleaseReconciler \<Rightarrow> HelmRelease \<Rightarrow> string \<Rightarrow> bool" where
  "ReleaseTargetChanged r obj chartName =
     (case currentDeployment (History (Status obj)) of
        None \<Rightarrow> False
      | Some cur \<Rightarrow>
          (DeployedNamespace cur, DeployedName cur, DeployedChartName cur)
            \<noteq> (GetReleaseNamespace r obj, GetReleaseName r obj, chartName))"

text \<open>
  Modelled from the spec: \<^verbatim>\<open>action.MustResetFailures\<close> is not among the sources.
  Section 4.3: \<open>mustReset(revision, digest) = (revision \<noteq> lastAttemptedRevision) OR
  (digest \<noteq> lastAttemptedConfigDigest)\<close>, the revision being the chart's version and the
  digest the canonical digest of the composed values.
\<close>

definition MustResetFailures :: "HelmReleaseReconciler \<Rightarrow> HelmRelease \<Rightarrow> Metadata \<Rightarrow> Values \<Rightarrow> bool" where
  "MustResetFailures r obj chart values =
     (Version chart \<noteq> LastAttemptedRevision (Status obj)
      \<or> DigestValues r values \<noteq> LastAttemptedConfigDigest (Status obj))"

subsection \<open>reconcileRelease\<close>

text \<open>The reset of the failure counts (the block after the storage namespace is set).\<close>

definition resetFailures :: "HelmReleaseReconciler \<Rightarrow> HelmRelease \<Rightarrow> Metadata \<Rightarrow> Values \<Rightarrow> HelmRelease" where
  "resetFailures r obj chart values =
     (if MustResetFailures r obj chart values
      then obj\<lparr>Status := (Status obj)\<lparr>InstallFailures := 0, UpgradeFailures := 0, Failures := 0\<rparr>\<rparr>
      else obj)"

text \<open>The record of the attempt (the block "Set last attempt values").\<close>

definition setLastAttempt :: "HelmReleaseReconciler \<Rightarrow> HelmRelease \<Rightarrow> Chart \<Rightarrow> Values \<Rightarrow> HelmRelease" where
  "setLastAttempt r obj loadedChart values =
     obj\<lparr>Status := (Status obj)\<lparr>
       LastAttemptedGeneration := Generation (ObjectMeta obj),
       LastAttemptedRevision := Version (Metadata loadedChart),
       LastAttemptedConfigDigest := DigestValues r values,
       LastAttemptedValuesChecksum := []\<rparr>\<rparr>"

text \<open>
  The three steps between the target check and the config factory: the storage
  namespace, the reset of the failure counts, the record of the attempt.
\<close>

definition prepareAttempt :: "HelmReleaseReconciler \<Rightarrow> HelmRelease \<Rightarrow> Chart \<Rightarrow> Values \<Rightarrow> HelmRelease" where
  "prepareAttempt r obj loadedChart values =
     (let obj = obj\<lparr>Status := (Status obj)\<lparr>StorageNamespace := GetStorageNamespace r obj\<rparr>\<rparr>;
          obj = resetFailures r obj (Metadata loadedChart) values;
          obj = setLastAttempt r obj loadedChart values
      in obj)"

definition failed :: "HelmRelease \<Rightarrow> error \<Rightarrow> action list \<Rightarrow> outcome" where
  "failed obj err acts = \<lparr>result = zeroResult, retErr = Some err, object = obj, actions = acts\<rparr>"

definition markNotReady :: "string \<Rightarrow> string \<Rightarrow> HelmRelease \<Rightarrow> HelmRelease" where
  "markNotReady reason msg obj = setConditions (\<lambda>cs. MarkFalse cs ReadyCondition reason msg) obj"

definition markedReconciling :: "HelmRelease \<Rightarrow> HelmRelease" where
  "markedReconciling obj = setConditions (\<lambda>cs. MarkReconciling cs ProgressingReason []) obj"

definition clearTarget :: "HelmRelease \<Rightarrow> HelmRelease" where
  "clearTarget obj = obj\<lparr>Status := (Status obj)\<lparr>History := emptyReleaseHistory, StorageNamespace := []\<rparr>\<rparr>"

text \<open>
  The part of \<^verbatim>\<open>reconcileRelease\<close> from the target check on, given the chart, the
  values and the client getter resolved before it and the actions so far.
\<close>

definition releaseStage ::
  "HelmReleaseReconciler \<Rightarrow> HelmRelease \<Rightarrow> Chart \<Rightarrow> Values \<Rightarrow> RESTClientGetter \<Rightarrow> action list \<Rightarrow> outcome" where
  "releaseStage r obj loadedChart values getter acts =
     (if ReleaseTargetChanged r obj (ChartName (Metadata loadedChart)) then
        (case reconcileUninstall r getter obj of
           (Some err, obj', a) \<Rightarrow>
             if \<not> IsNoCurrent err then failed obj' err (acts @ a)
             else \<lparr>result = \<lparr>Requeue = True, RequeueAfter = 0\<rparr>, retErr = None,
                   object = clearTarget obj', actions = acts @ a\<rparr>
         | (None, obj', a) \<Rightarrow>
             \<lparr>result = \<lparr>Requeue = True, RequeueAfter = 0\<rparr>, retErr = None,
              object = clearTarget obj', actions = acts @ a\<rparr>)
      else
        (let obj = prepareAttempt r obj loadedChart values
         in case NewConfigFactory r getter (StorageNamespace (Status obj)) of
              Inl err \<Rightarrow> failed (markNotReady ''FactoryError'' (Error err) obj) err acts
            | Inr cfg \<Rightarrow>
                (let (err, obj') = AtomicReleaseReconcile r cfg obj loadedChart values;
                     acts = acts @ [ActAtomicRelease obj loadedChart values]
                 in case err of
                      Some e \<Rightarrow> failed obj' e acts
                    | None \<Rightarrow>
                        \<lparr>result = \<lparr>Requeue = False, RequeueAfter = GetRequeueAfter r obj'\<rparr>,
                         retErr = None, object = obj', actions = acts\<rparr>)))"

text \<open>
  \<^verbatim>\<open>reconcileRelease\<close>. The artifact is read only where the readiness check has found
  it present.
\<close>

definition reconcileRelease :: "HelmReleaseReconciler \<Rightarrow> HelmRelease \<Rightarrow> outcome" where
  "reconcileRelease r obj0 =
     (let obj = markedReconciling obj0
      in case (if length (DependsOn (Spec obj)) > 0 then checkDependencies r obj else None) of
           Some err \<Rightarrow>
             \<lparr>result = \<lparr>Requeue = False, RequeueAfter = requeueDependency r\<rparr>, retErr = None,
              object = markNotReady DependencyNotReadyReason (Error err) obj,
              actions = [ActEvent EventSeverityInfo DependencyNotReadyReason (Error err)]\<rparr>
         | None \<Rightarrow>
             (case getHelmChart r obj of
                (Inl err, acts) \<Rightarrow>
                  if IsAccessDenied err then
                    failed
                      (setConditions (\<lambda>cs. Delete cs ReconcilingCondition)
                        (markNotReady AccessDeniedReason (Error err)
                          (setConditions (\<lambda>cs. MarkStalled cs AccessDeniedReason (Error err)) obj)))
                      (TerminalError err) acts
                  else
                    failed
                      (markNotReady ArtifactFailedReason (''could not get HelmChart object: '' @ Error err) obj)
                      err acts
              | (Inr hc, acts) \<Rightarrow>
                  if Generation (hcObjectMeta hc) \<noteq> hcObservedGeneration hc
                     \<or> \<not> IsReady (hcConditions hc) \<or> hcArtifact hc = None
                  then
                    \<lparr>result = \<lparr>Requeue = False, RequeueAfter = hcInterval hc\<rparr>, retErr = None,
                     object = markNotReady ''HelmChartNotReady''
                       (''HelmChart '' @ quoted (Namespace (hcObjectMeta hc) @ ''/'' @ Name (hcObjectMeta hc))
                          @ '' is not ready'') obj,
                     actions = acts\<rparr>
                  else
                    (let acts = acts @ [ActComposeValues]
                     in case ChartValuesFromReferences r obj of
                          Inl err \<Rightarrow> failed (markNotReady ''ValuesError'' (Error err) obj) err acts
                        | Inr values \<Rightarrow>
                            (let artifact = the (hcArtifact hc);
                                 acts = acts @ [ActLoadChart (URL artifact) (Digest artifact)]
                             in case SecureLoadChartFromURL r (URL artifact) (Digest artifact) of
                                  Inl err \<Rightarrow>
                                    failed (markNotReady ArtifactFailedReason (Error err) obj) err acts
                                | Inr loadedChart \<Rightarrow>
                                    (case buildRESTClientGetter r obj of
                                       Inl err \<Rightarrow>
                                         failed (markNotReady ''RESTClientError'' (Error err) obj) err acts
                                     | Inr getter \<Rightarrow>
                                         releaseStage r obj loadedChart values getter acts)))))"

subsection \<open>reconcileReleaseDeletion and reconcileDelete\<close>

text \<open>\<^verbatim>\<open>i := strings.LastIndex(s, ":"); if i != -1 { s = s[i+1:] }\<close>\<close>

definition afterLastColon :: "string \<Rightarrow> string" where
  "afterLastColon s =
     (if CHR '':'' \<in> set s then rev (takeWhile (\<lambda>c. c \<noteq> CHR '':'') (rev s)) else s)"

text \<open>
  The check of the impersonated service account; \<open>Some\<close> is what
  \<^verbatim>\<open>reconcileReleaseDeletion\<close> returns at once, \<open>None\<close> lets it go on.
\<close>

definition confirmServiceAccount ::
  "HelmReleaseReconciler \<Rightarrow> RESTClientGetter \<Rightarrow> HelmRelease \<Rightarrow> (error option \<times> HelmRelease) option" where
  "confirmServiceAccount r getter obj =
     (case ToRESTConfig r getter of
        Inl err \<Rightarrow> Some (Some err, obj)
      | Inr cfg \<Rightarrow>
          (let serviceAccount = ImpersonateUserName cfg
           in if serviceAccount \<noteq> [] then
                (let serviceAccount = afterLastColon serviceAccount
                 in case GetServiceAccount r
                           \<lparr>RefNamespace = Namespace (ObjectMeta obj), RefName = serviceAccount\<rparr> of
                      Some err \<Rightarrow>
                        if IgnoreNotFound err = None then Some (None, obj)
                        else Some (Some err,
                               markNotReady UninstallFailedReason
                                 (''failed to confirm ServiceAccount '' @ quoted serviceAccount
                                    @ '' can be used to uninstall release: '' @ Error err) obj)
                    | None \<Rightarrow> None)
              else None))"

definition reconcileReleaseDeletion ::
  "HelmReleaseReconciler \<Rightarrow> HelmRelease \<Rightarrow> error option \<times> HelmRelease \<times> action list" where
  "reconcileReleaseDeletion r obj =
     (if DeletionTimestamp (ObjectMeta obj) = None then
        (Some (OtherError ''refusing to uninstall Helm release: deletion timestamp is not set''), obj, [])
      else if StorageNamespace (Status obj) = [] then (None, obj, [])
      else
        (case buildRESTClientGetter r obj of
           Inl err \<Rightarrow>
             if IsNotFound err then (None, obj, [])
             else (Some err,
                   markNotReady UninstallFailedReason
                     (''failed to build REST client getter to uninstall release: '' @ Error err) obj,
                   [])
         | Inr getter \<Rightarrow>
             (case (if KubeConfig (Spec obj) = None then confirmServiceAccount r getter obj else None) of
                Some (err, obj') \<Rightarrow> (err, obj', [])
              | None \<Rightarrow>
                  (case reconcileUninstall r getter obj of
                     (Some err, obj', a) \<Rightarrow>
                       if \<not> IsNoCurrent err then (Some err, obj', a) else (None, clearTarget obj', a)
                   | (None, obj', a) \<Rightarrow> (None, clearTarget obj', a)))))"

definition removeFinalizerResult :: "HelmRelease \<Rightarrow> action list \<Rightarrow> outcome" where
  "removeFinalizerResult obj acts =
     (if DeletionTimestamp (ObjectMeta obj) \<noteq> None then
        \<lparr>result = zeroResult, retErr = None,
         object = obj\<lparr>ObjectMeta := (ObjectMeta obj)\<lparr>Finalizers :=
                    filter (\<lambda>f. f \<noteq> HelmReleaseFinalizer) (Finalizers (ObjectMeta obj))\<rparr>\<rparr>,
         actions = acts\<rparr>
      else \<lparr>result = \<lparr>Requeue = True, RequeueAfter = 0\<rparr>, retErr = None, object = obj, actions = acts\<rparr>)"

definition reconcileDelete :: "HelmReleaseReconciler \<Rightarrow> HelmRelease \<Rightarrow> outcome" where
  "reconcileDelete r obj =
     (if \<not> Suspend (Spec obj) then
        (case reconcileReleaseDeletion r obj of
           (Some err, obj', a) \<Rightarrow> failed obj' err a
         | (None, obj', a) \<Rightarrow>
             (case reconcileChartTemplate r obj' of
                (Some err, obj'', b) \<Rightarrow> failed obj'' err (a @ b)
              | (None, obj'', b) \<Rightarrow> removeFinalizerResult obj'' (a @ b)))
      else removeFinalizerResult obj [])"

subsection \<open>Reconcile\<close>

text \<open>The body of \<^verbatim>\<open>Reconcile\<close> after the release has been read and the deferred patch registered.\<close>

definition reconcileBody :: "HelmReleaseReconciler \<Rightarrow> HelmRelease \<Rightarrow> outcome" where
  "reconcileBody r obj =
     (if DeletionTimestamp (ObjectMeta obj) \<noteq> None then reconcileDelete r obj
      else if HelmReleaseFinalizer \<notin> set (Finalizers (ObjectMeta obj)) then
        \<lparr>result = \<lparr>Requeue = True, RequeueAfter = 0\<rparr>, retErr = None,
         object = obj\<lparr>ObjectMeta := (ObjectMeta obj)\<lparr>Finalizers :=
                    Finalizers (ObjectMeta obj) @ [HelmReleaseFinalizer]\<rparr>\<rparr>,
         actions = []\<rparr>
      else if Suspend (Spec obj) then
        \<lparr>result = zeroResult, retErr = None, object = obj, actions = []\<rparr>
      else
        (case reconcileChartTemplate r obj of
           (Some err, obj', a) \<Rightarrow> failed obj' err a
         | (None, obj', a) \<Rightarrow>
             (let out = reconcileRelease r obj' in out\<lparr>actions := a @ actions out\<rparr>)))"

text \<open>The deferred function: the options of the patch, the patch, and the error returned.\<close>

definition patchOptions :: "HelmReleaseReconciler \<Rightarrow> Result \<Rightarrow> error option \<Rightarrow> PatchOption list" where
  "patchOptions r res err =
     (let patchOpts = [WithFieldOwner (FieldManager r), WithOwnedConditions]
      in if (case err of Some e \<Rightarrow> IsTerminal e | None \<Rightarrow> False)
            \<or> (err = None \<and> (IsZero res \<or> \<not> Requeue res))
         then patchOpts @ [WithStatusObservedGeneration]
         else patchOpts)"

definition deferredPatch :: "HelmReleaseReconciler \<Rightarrow> outcome \<Rightarrow> outcome" where
  "deferredPatch r out =
     (let patchOpts = patchOptions r (result out) (retErr out);
          acts = actions out @ [ActPatch (object out) patchOpts]
      in case Patch r (object out) patchOpts of
           Some err \<Rightarrow>
             (case retErr out of
                Some e \<Rightarrow> out\<lparr>retErr := Some (Aggregate [e, err]), actions := acts\<rparr>
              | None \<Rightarrow> out\<lparr>retErr := Some err, actions := acts\<rparr>)
         | None \<Rightarrow> out\<lparr>actions := acts\<rparr>)"

text \<open>
  \<^verbatim>\<open>Reconcile\<close>: result, error and actions. A release that cannot be read ends the
  reconciliation before the patch is registered.
\<close>

definition Reconcile :: "HelmReleaseReconciler \<Rightarrow> NamespacedName \<Rightarrow> Result \<times> error option \<times> action list" where
  "Reconcile r req =
     (case GetHelmRelease r req of
        Inl err \<Rightarrow> (zeroResult, IgnoreNotFound err, [])
      | Inr obj \<Rightarrow>
          (let out = deferredPatch r (reconcileBody r obj)
           in (result out, retErr out, actions out)))"

subsection \<open>requestsForHelmChartChange\<close>

fun requestsLoop :: "Artifact \<Rightarrow> HelmRelease list \<Rightarrow> NamespacedName list \<Rightarrow> NamespacedName list" where
  "requestsLoop artifact [] reqs = reqs"
| "requestsLoop artifact (i # items) reqs =
     (if HasRevision artifact (LastAttemptedRevision (Status i)) then requestsLoop artifact items reqs
      else requestsLoop artifact items (reqs @ [ObjectKey (ObjectMeta i)]))"

definition requestsForHelmChartChange :: "HelmReleaseReconciler \<Rightarrow> Object \<Rightarrow> NamespacedName list" where
  "requestsForHelmChartChange r obj =
     (case obj of
        HelmChartObject hc \<Rightarrow>
          (case hcArtifact hc of
             None \<Rightarrow> []
           | Some artifact \<Rightarrow>
               (case ListHelmReleases r (String (ObjectKey (hcObjectMeta hc))) of
                  Inl err \<Rightarrow> []
                | Inr items \<Rightarrow> requestsLoop artifact items []))
      | HelmReleaseObject hr \<Rightarrow> []
      | OtherObject k \<Rightarrow> [])"

section \<open>The bounded store of the specification\<close>

text \<open>
  Modelled from the spec: the store itself (the log buffer of \<^verbatim>\<open>internal/action\<close>, whose
  tests are among the sources, and the history of the status) is not among the sources.
  Section 4.6: append with eviction, capacity \<open>N\<close>; eviction removes the oldest entry once
  the capacity is exceeded. The entries are kept oldest first.
\<close>

record 'a HistoryStore =
  capacity :: nat
  entries :: "'a list"

definition newStore :: "nat \<Rightarrow> 'a HistoryStore" where
  "newStore n = \<lparr>capacity = n, entries = []\<rparr>"

definition insert_entry :: "'a \<Rightarrow> 'a HistoryStore \<Rightarrow> 'a HistoryStore" where
  "insert_entry x s =
     (let es = entries s @ [x]
      in if length es > capacity s then s\<lparr>entries := tl es\<rparr> else s\<lparr>entries := es\<rparr>)"

fun insert_all :: "'a list \<Rightarrow> 'a HistoryStore \<Rightarrow> 'a HistoryStore" where
  "insert_all [] s = s"
| "insert_all (x # xs) s = insert_all xs (insert_entry x s)"

section \<open>Predicates of the properties\<close>

text \<open>
  A dependency is ready, in the words of the specification: it can be read, it has been
  observed at its latest generation, and its Ready condition is true.
\<close>

definition dependencyReady :: "HelmReleaseReconciler \<Rightarrow> HelmRelease \<Rightarrow> NamespacedObjectReference \<Rightarrow> bool" where
  "dependencyReady r obj d =
     (case GetHelmRelease r (dependencyRef obj d) of
        Inl err \<Rightarrow> False
      | Inr dHr \<Rightarrow>
          ObservedGeneration (Status dHr) = Generation (ObjectMeta dHr)
          \<and> IsTrue (Conditions (Status dHr)) ReadyCondition)"

text \<open>
  A reconciliation of the release reaches the target check with this chart, these values
  and this client getter: the dependency gate passes, the chart object is read and is
  ready with an artifact, the values compose, the artifact loads and the getter builds.
\<close>

definition reachesTargetCheck ::
  "HelmReleaseReconciler \<Rightarrow> HelmRelease \<Rightarrow> HelmChart \<Rightarrow> Artifact \<Rightarrow> Chart \<Rightarrow> Values \<Rightarrow> RESTClientGetter \<Rightarrow> bool" where
  "reachesTargetCheck r obj hc artifact loadedChart values getter =
     (checkDependencies r (markedReconciling obj) = None
      \<and> fst (getHelmChart r (markedReconciling obj)) = Inr hc
      \<and> Generation (hcObjectMeta hc) = hcObservedGeneration hc
      \<and> IsReady (hcConditions hc)
      \<and> hcArtifact hc = Some artifact
      \<and> ChartValuesFromReferences r (markedReconciling obj) = Inr values
      \<and> SecureLoadChartFromURL r (URL artifact) (Digest artifact) = Inr loadedChart
      \<and> buildRESTClientGetter r (markedReconciling obj) = Inr getter)"

text \<open>The actions up to the target check of such a reconciliation.\<close>

definition resolveActions :: "HelmReleaseReconciler \<Rightarrow> HelmRelease \<Rightarrow> Artifact \<Rightarrow> action list" where
  "resolveActions r obj artifact =
     snd (getHelmChart r (markedReconciling obj))
       @ [ActComposeValues, ActLoadChart (URL artifact) (Digest artifact)]"

fun isUninstall :: "action \<Rightarrow> bool" where
  "isUninstall (ActUninstall obj) = True"
| "isUninstall a = False"

fun isAtomicRelease :: "action \<Rightarrow> bool" where
  "isAtomicRelease (ActAtomicRelease obj c v) = True"
| "isAtomicRelease a = False"

fun isChartResolution :: "action \<Rightarrow> bool" where
  "isChartResolution (ActGetChart ref) = True"
| "isChartResolution (ActLoadChart url digest) = True"
| "isChartResolution a = False"

section \<open>A concrete cluster\<close>

text \<open>
  The release \<open>apps/web\<close> with one dependency \<open>db\<close> in its own namespace, its chart
  object \<open>apps/apps-web\<close> with an artifact of revision 1.1.0, and a reconciler whose
  collaborators all succeed. The release was last attempted at 1.0.0 with three failed
  upgrades, and is deployed from the chart \<open>web\<close>.
\<close>

definition exampleStatus :: HelmReleaseStatus where
  "exampleStatus =
     \<lparr>ObservedGeneration = 2, Conditions = Map.empty, HelmChart = ''apps/apps-web'',
      StorageNamespace = ''apps'',
      History = \<lparr>currentDeployment = Some \<lparr>DeployedNamespace = ''apps'', DeployedName = ''web'',
                   DeployedChartName = ''web'', DeployedChartVersion = ''1.0.0'',
                   DeployedConfigDigest = ''replicas=1''\<rparr>,
                 history = [\<lparr>AttemptRevision = ''1.0.0'', AttemptDigest = ''replicas=1'',
                   AttemptAction = Install, AttemptOutcome = Succeeded\<rparr>]\<rparr>,
      InstallFailures = 0, UpgradeFailures = 3, Failures = 3,
      LastAttemptedGeneration = 2, LastAttemptedRevision = ''1.0.0'',
      LastAttemptedConfigDigest = ''replicas=1'', LastAttemptedValuesChecksum = []\<rparr>"

definition exampleRelease :: HelmRelease where
  "exampleRelease =
     \<lparr>ObjectMeta = \<lparr>Namespace = ''apps'', Name = ''web'', Generation = 3, DeletionTimestamp = None,
                    Finalizers = [HelmReleaseFinalizer]\<rparr>,
      Spec = \<lparr>Suspend = False, DependsOn = [\<lparr>DepNamespace = [], DepName = ''db''\<rparr>], KubeConfig = None\<rparr>,
      Status = exampleStatus\<rparr>"

definition exampleDependency :: HelmRelease where
  "exampleDependency =
     \<lparr>ObjectMeta = \<lparr>Namespace = ''apps'', Name = ''db'', Generation = 1, DeletionTimestamp = None,
                    Finalizers = [HelmReleaseFinalizer]\<rparr>,
      Spec = \<lparr>Suspend = False, DependsOn = [], KubeConfig = None\<rparr>,
      Status = exampleStatus\<lparr>ObservedGeneration := 1,
                 Conditions := [ReadyCondition \<mapsto>
                   \<lparr>CondStatus = ConditionTrue, Reason = ''InstallSucceeded'', Message = []\<rparr>]\<rparr>\<rparr>"

text \<open>A second release of the same chart, already attempted at the artifact's revision.\<close>

definition attemptedRelease :: HelmRelease where
  "attemptedRelease =
     exampleRelease\<lparr>ObjectMeta := (ObjectMeta exampleRelease)\<lparr>Name := ''api''\<rparr>,
       Status := exampleStatus\<lparr>LastAttemptedRevision := ''1.1.0''\<rparr>\<rparr>"

definition exampleArtifact :: Artifact where
  "exampleArtifact = \<lparr>URL = ''http://source/web-1.1.0.tgz'', Revision = ''1.1.0'', Digest = ''sha256:ab''\<rparr>"

definition exampleHelmChart :: HelmChart where
  "exampleHelmChart =
     \<lparr>hcObjectMeta = \<lparr>Namespace = ''apps'', Name = ''apps-web'', Generation = 1,
                      DeletionTimestamp = None, Finalizers = []\<rparr>,
      hcObservedGeneration = 1,
      hcConditions = [ReadyCondition \<mapsto>
        \<lparr>CondStatus = ConditionTrue, Reason = ''ChartPullSucceeded'', Message = []\<rparr>],
      hcArtifact = Some exampleArtifact,
      hcInterval = 60\<rparr>"

definition exampleChart :: Chart where
  "exampleChart = \<lparr>Metadata = \<lparr>ChartName = ''web'', Version = ''1.1.0''\<rparr>\<rparr>"

definition exampleValues :: Values where
  "exampleValues = [(''replicas'', ''2'')]"

definition exampleReconciler :: HelmReleaseReconciler where
  "exampleReconciler =
     \<lparr>FieldManager = ''helm-controller'',
      requeueDependency = 30,
      GetClusterConfig = Inr \<lparr>ImpersonateUserName = []\<rparr>,
      GetHelmRelease = (\<lambda>ref.
        if ref = \<lparr>RefNamespace = ''apps'', RefName = ''web''\<rparr> then Inr exampleRelease
        else if ref = \<lparr>RefNamespace = ''apps'', RefName = ''db''\<rparr> then Inr exampleDependency
        else Inl (NotFoundError ''not found'')),
      GetHelmChartObject = (\<lambda>ref. Inr exampleHelmChart),
      GetSecret = (\<lambda>ref. Inl (NotFoundError ''not found'')),
      GetServiceAccount = (\<lambda>ref. None),
      ListHelmReleases = (\<lambda>key. Inr [exampleRelease, attemptedRelease]),
      Patch = (\<lambda>obj opts. None),
      AllowsAccessTo = (\<lambda>obj ref. None),
      ChartValuesFromReferences = (\<lambda>obj. Inr exampleValues),
      SecureLoadChartFromURL = (\<lambda>url digest. Inr exampleChart),
      ConfigFromSecret = (\<lambda>secret key. Inl (OtherError ''no kubeconfig'')),
      NewMemoryRESTClientGetter = (\<lambda>cfg obj. RESTClientGetter 0),
      ToRESTConfig = (\<lambda>getter. Inr \<lparr>ImpersonateUserName = []\<rparr>),
      NewConfigFactory = (\<lambda>getter ns. Inr (ConfigFactory 0)),
      DigestValues = (\<lambda>values. concat (map (\<lambda>(k, v). k @ ''='' @ v) values)),
      HelmChartTemplateReconcile = (\<lambda>obj. (None, obj)),
      UninstallReconcile = (\<lambda>cfg obj. (None, obj)),
      AtomicReleaseReconcile = (\<lambda>cfg obj chart values. (None, obj)),
      GetHelmChart = (\<lambda>status. (''apps'', ''apps-web'')),
      GetStorageNamespace = (\<lambda>obj. Namespace (ObjectMeta obj)),
      GetReleaseNamespace = (\<lambda>obj. Namespace (ObjectMeta obj)),
      GetReleaseName = (\<lambda>obj. Name (ObjectMeta obj)),
      GetRequeueAfter = (\<lambda>obj. 600)\<rparr>"

text \<open>The same release deployed from a chart of another name: its target has changed.\<close>

definition movedRelease :: HelmRelease where
  "movedRelease =
     exampleRelease\<lparr>Status := exampleStatus\<lparr>History :=
       \<lparr>currentDeployment = Some \<lparr>DeployedNamespace = ''apps'', DeployedName = ''web'',
          DeployedChartName = ''old-web'', DeployedChartVersion = ''1.0.0'',
          DeployedConfigDigest = ''replicas=1''\<rparr>,
        history = []\<rparr>\<rparr>\<rparr>"

text \<open>The same release suspended.\<close>

definition suspendedRelease :: HelmRelease where
  "suspendedRelease = exampleRelease\<lparr>Spec := (Spec exampleRelease)\<lparr>Suspend := True\<rparr>\<rparr>"

text \<open>Reconcilers that differ from the example in one collaborator's answers.\<close>

definition missingDependencyReconciler :: HelmReleaseReconciler where
  "missingDependencyReconciler =
     exampleReconciler\<lparr>GetHelmRelease := (\<lambda>ref.
       if ref = \<lparr>RefNamespace = ''apps'', RefName = ''web''\<rparr> then Inr exampleRelease
       else Inl (NotFoundError ''not found''))\<rparr>"

definition deniedReconciler :: HelmReleaseReconciler where
  "deniedReconciler =
     exampleReconciler\<lparr>AllowsAccessTo := (\<lambda>obj ref.
       Some (AccessDeniedError ''cross-namespace references are not allowed''))\<rparr>"

definition failingUninstallReconciler :: HelmReleaseReconciler where
  "failingUninstallReconciler =
     exampleReconciler\<lparr>UninstallReconcile := (\<lambda>cfg obj. (Some (OtherError ''uninstall failed''), obj))\<rparr>"

definition failingPatchReconciler :: HelmReleaseReconciler where
  "failingPatchReconciler =
     exampleReconciler\<lparr>GetHelmRelease := (\<lambda>ref. Inr suspendedRelease),
       Patch := (\<lambda>obj opts. Some (OtherError ''conflict''))\<rparr>"

definition failingTemplateAndPatchReconciler :: HelmReleaseReconciler where
  "failingTemplateAndPatchReconciler =
     exampleReconciler\<lparr>HelmChartTemplateReconcile := (\<lambda>obj. (Some (OtherError ''template failed''), obj)),
       Patch := (\<lambda>obj opts. Some (OtherError ''conflict''))\<rparr>"

text \<open>A reconciler that resolves the chart and the values the release was last attempted with.\<close>

definition unchangedReconciler :: HelmReleaseReconciler where
  "unchangedReconciler =
     exampleReconciler\<lparr>ChartValuesFromReferences := (\<lambda>obj. Inr [(''replicas'', ''1'')]),
       SecureLoadChartFromURL := (\<lambda>url digest. Inr \<lparr>Metadata = \<lparr>ChartName = ''web'', Version = ''1.0.0''\<rparr>\<rparr>)\<rparr>"

section \<open>The history bound\<close>

lemma insert_entry_capacity: "capacity (insert_entry x s) = capacity s"
  by (simp add: insert_entry_def Let_def)

lemma insert_entry_bounded:
  "length (entries s) \<le> capacity s \<Longrightarrow> length (entries (insert_entry x s)) \<le> capacity s"
  by (auto simp: insert_entry_def Let_def)

lemma insert_all_entries:
  "length (entries s) \<le> capacity s \<Longrightarrow>
   entries (insert_all xs s) = drop (length (entries s) + length xs - capacity s) (entries s @ xs)"
proof (induction xs arbitrary: s)
  case Nil
  then show ?case by simp
next
  case (Cons x xs)
  have b: "length (entries (insert_entry x s)) \<le> capacity (insert_entry x s)"
    using Cons.prems by (simp add: insert_entry_bounded insert_entry_capacity)
  show ?case
  proof (cases "Suc (length (entries s)) \<le> capacity s")
    case True
    then have e: "entries (insert_entry x s) = entries s @ [x]"
      by (simp add: insert_entry_def Let_def)
    show ?thesis using Cons.IH[OF b] by (simp add: e insert_entry_capacity)
  next
    case False
    with Cons.prems have eq: "length (entries s) = capacity s" by simp
    show ?thesis
    proof (cases "entries s")
      case Nil
      with eq have c0: "capacity s = 0" by simp
      have e: "entries (insert_entry x s) = []"
        using Nil c0 by (simp add: insert_entry_def Let_def)
      show ?thesis using Cons.IH[OF b] by (simp add: e insert_entry_capacity Nil c0)
    next
      case (Cons y ys)
      have e: "entries (insert_entry x s) = ys @ [x]"
        using Cons eq by (simp add: insert_entry_def Let_def)
      have l: "capacity s = Suc (length ys)" using Cons eq by simp
      show ?thesis using Cons.IH[OF b]
        by (simp add: e insert_entry_capacity Cons l)
    qed
  qed
qed

text \<open>
  C8. After \<open>M\<close> insertions into an empty store of capacity \<open>N\<close>: if \<open>M > N\<close>, exactly
  the \<open>N\<close> most recently inserted entries remain, in order of insertion, the oldest
  \<open>M - N\<close> having been evicted; if \<open>M \<le> N\<close>, all \<open>M\<close> remain.
\<close>

theorem history_bound:
  "(n < length xs \<longrightarrow>
      entries (insert_all xs (newStore n)) = drop (length xs - n) xs
      \<and> length (entries (insert_all xs (newStore n))) = n)
   \<and> (length xs \<le> n \<longrightarrow> entries (insert_all xs (newStore n)) = xs)"
  using insert_all_entries[of "newStore n" xs] by (simp add: newStore_def)

text \<open>
  The case of the log buffer's test: capacity 2 and the lines a, b, c leave b, c; and
  two lines in a store of capacity 4 both remain.
\<close>

theorem history_bound_witness:
  "(2::nat) < length [''a'', ''b'', ''c''] \<and>
   entries (insert_all [''a'', ''b'', ''c''] (newStore 2)) = [''b'', ''c''] \<and>
   length [''a'', ''b''] \<le> (4::nat) \<and>
   entries (insert_all [''a'', ''b''] (newStore 4)) = [''a'', ''b'']"
  using history_bound[of 2 "[''a'', ''b'', ''c'']"] history_bound[of 4 "[''a'', ''b'']"]
  by simp

section \<open>Evaluation of the concrete cluster\<close>

lemmas example_defs =
  exampleReconciler_def exampleRelease_def exampleDependency_def exampleStatus_def
  exampleHelmChart_def exampleArtifact_def exampleChart_def exampleValues_def
  movedRelease_def suspendedRelease_def missingDependencyReconciler_def deniedReconciler_def
  failingUninstallReconciler_def failingPatchReconciler_def failingTemplateAndPatchReconciler_def
  unchangedReconciler_def

lemmas eval_defs =
  reachesTargetCheck_def checkDependencies_def markedReconciling_def setConditions_def
  dependencyRef_def Let_def IsTrue_def IsReady_def getHelmChart_def buildRESTClientGetter_def
  ReleaseTargetChanged_def MarkReconciling_def MarkTrue_def MarkFalse_def MarkStalled_def Delete_def
  resolveActions_def prepareAttempt_def resetFailures_def setLastAttempt_def MustResetFailures_def
  markNotReady_def failed_def zeroResult_def dependencyReady_def String_def quoted_def
  reconcileUninstall_def clearTarget_def emptyReleaseHistory_def IsNoCurrent_def IsTerminal_def
  IsAccessDenied_def IsNotFound_def

section \<open>The dependency check\<close>

lemma loop_step_ready:
  "dependencyReady r obj d \<Longrightarrow> checkDependenciesLoop r obj (d # ds) = checkDependenciesLoop r obj ds"
  by (auto simp: dependencyReady_def Let_def split: sum.splits)

lemma loop_step_not_ready:
  "\<not> dependencyReady r obj d \<Longrightarrow>
   checkDependenciesLoop r obj (d # ds) =
     Some (case GetHelmRelease r (dependencyRef obj d) of
             Inl err \<Rightarrow> Wrapped (''unable to get '' @ quoted (String (dependencyRef obj d)) @ '' dependency'') err
           | Inr dHr \<Rightarrow> OtherError (''dependency '' @ quoted (String (dependencyRef obj d)) @ '' is not ready''))"
  by (auto simp: dependencyReady_def Let_def split: sum.splits)

lemma loop_None_iff:
  "checkDependenciesLoop r obj ds = None \<longleftrightarrow> (\<forall>d \<in> set ds. dependencyReady r obj d)"
proof (induction ds)
  case Nil
  show ?case by simp
next
  case (Cons d ds)
  show ?case
  proof (cases "dependencyReady r obj d")
    case True
    then show ?thesis using Cons.IH loop_step_ready[OF True, of ds]
      by (simp del: checkDependenciesLoop.simps)
  next
    case False
    then show ?thesis using loop_step_not_ready[OF False, of ds]
      by (simp del: checkDependenciesLoop.simps)
  qed
qed

lemma loop_first_violation:
  "\<forall>p \<in> set pre. dependencyReady r obj p \<Longrightarrow> \<not> dependencyReady r obj d \<Longrightarrow>
   checkDependenciesLoop r obj (pre @ d # post) =
     Some (case GetHelmRelease r (dependencyRef obj d) of
             Inl err \<Rightarrow> Wrapped (''unable to get '' @ quoted (String (dependencyRef obj d)) @ '' dependency'') err
           | Inr dHr \<Rightarrow> OtherError (''dependency '' @ quoted (String (dependencyRef obj d)) @ '' is not ready''))"
proof (induction pre)
  case Nil
  then show ?case using loop_step_not_ready[of r obj d post]
    by (simp del: checkDependenciesLoop.simps)
next
  case (Cons p pre)
  then have "dependencyReady r obj p" by simp
  then have "checkDependenciesLoop r obj ((p # pre) @ d # post) = checkDependenciesLoop r obj (pre @ d # post)"
    using loop_step_ready[of r obj p "pre @ d # post"] by (simp del: checkDependenciesLoop.simps)
  with Cons show ?case by (simp del: checkDependenciesLoop.simps)
qed

lemma dependencyRef_default:
  "dependencyRef obj d =
     \<lparr>RefNamespace = (if DepNamespace d = [] then Namespace (ObjectMeta obj) else DepNamespace d),
      RefName = DepName d\<rparr>"
  by (simp add: dependencyRef_def Let_def)

text \<open>
  C4. The dependency check returns no error if and only if every entry of the dependency
  list is ready: the dependency, looked up in the release's own namespace when its
  namespace is unset, can be read, its observed generation is its generation and its
  Ready condition is true. The first entry that is not ready decides the error, which
  names it: that it could not be read, or that it is not ready.
\<close>

theorem checkDependencies_iff:
  "(checkDependencies r obj = None \<longleftrightarrow> (\<forall>d \<in> set (DependsOn (Spec obj)). dependencyReady r obj d))
   \<and> (DependsOn (Spec obj) = pre @ d # post \<and> (\<forall>p \<in> set pre. dependencyReady r obj p)
        \<and> \<not> dependencyReady r obj d \<longrightarrow>
       checkDependencies r obj =
         Some (case GetHelmRelease r (dependencyRef obj d) of
                 Inl err \<Rightarrow> Wrapped (''unable to get '' @ quoted (String (dependencyRef obj d)) @ '' dependency'') err
               | Inr dHr \<Rightarrow> OtherError (''dependency '' @ quoted (String (dependencyRef obj d)) @ '' is not ready'')))
   \<and> dependencyRef obj d =
       \<lparr>RefNamespace = (if DepNamespace d = [] then Namespace (ObjectMeta obj) else DepNamespace d),
        RefName = DepName d\<rparr>"
  unfolding checkDependencies_def
  using loop_None_iff[of r obj "DependsOn (Spec obj)"] loop_first_violation[of pre r obj d post]
        dependencyRef_default[of obj d]
  by simp

theorem checkDependencies_iff_witness:
  "checkDependencies exampleReconciler exampleRelease = None
   \<and> dependencyReady exampleReconciler exampleRelease \<lparr>DepNamespace = [], DepName = ''db''\<rparr>
   \<and> DependsOn (Spec exampleRelease) = [] @ \<lparr>DepNamespace = [], DepName = ''db''\<rparr> # []
   \<and> \<not> dependencyReady missingDependencyReconciler exampleRelease \<lparr>DepNamespace = [], DepName = ''db''\<rparr>
   \<and> checkDependencies missingDependencyReconciler exampleRelease =
       Some (Wrapped (''unable to get '' @ quoted ''apps/db'' @ '' dependency'') (NotFoundError ''not found''))
   \<and> dependencyRef exampleRelease \<lparr>DepNamespace = [], DepName = ''db''\<rparr> =
       \<lparr>RefNamespace = ''apps'', RefName = ''db''\<rparr>"
  using checkDependencies_iff[of exampleReconciler exampleRelease "[]"
          "\<lparr>DepNamespace = [], DepName = ''db''\<rparr>" "[]"]
        checkDependencies_iff[of missingDependencyReconciler exampleRelease "[]"
          "\<lparr>DepNamespace = [], DepName = ''db''\<rparr>" "[]"]
  by (simp add: eval_defs example_defs)

section \<open>The requests for a chart change\<close>

lemma requestsLoop_eq:
  "requestsLoop a items reqs =
     reqs @ map (\<lambda>i. ObjectKey (ObjectMeta i))
              (filter (\<lambda>i. LastAttemptedRevision (Status i) \<noteq> Revision a) items)"
  by (induction items arbitrary: reqs) (auto simp: HasRevision_def)

text \<open>
  C10. For a chart change the request mapper enqueues nothing when the chart has no
  artifact; for a chart with an artifact it enqueues, in the order of the index's list,
  one request for each listed release whose last attempted revision is not the
  artifact's revision, and none for a release whose last attempted revision is the
  artifact's. When the index cannot be listed it enqueues nothing.
\<close>

theorem requestsForHelmChartChange_requests:
  "(hcArtifact hc = None \<longrightarrow> requestsForHelmChartChange r (HelmChartObject hc) = [])
   \<and> (hcArtifact hc = Some a \<and> ListHelmReleases r (String (ObjectKey (hcObjectMeta hc))) = Inr items \<longrightarrow>
        requestsForHelmChartChange r (HelmChartObject hc) =
          map (\<lambda>i. ObjectKey (ObjectMeta i))
            (filter (\<lambda>i. LastAttemptedRevision (Status i) \<noteq> Revision a) items))
   \<and> (hcArtifact hc = Some a \<and> ListHelmReleases r (String (ObjectKey (hcObjectMeta hc))) = Inl err \<longrightarrow>
        requestsForHelmChartChange r (HelmChartObject hc) = [])"
  by (simp add: requestsForHelmChartChange_def requestsLoop_eq)

theorem requestsForHelmChartChange_requests_witness:
  "hcArtifact (exampleHelmChart\<lparr>hcArtifact := None\<rparr>) = None
   \<and> requestsForHelmChartChange exampleReconciler (HelmChartObject (exampleHelmChart\<lparr>hcArtifact := None\<rparr>)) = []
   \<and> hcArtifact exampleHelmChart = Some exampleArtifact
   \<and> ListHelmReleases exampleReconciler (String (ObjectKey (hcObjectMeta exampleHelmChart))) =
       Inr [exampleRelease, attemptedRelease]
   \<and> LastAttemptedRevision (Status exampleRelease) = ''1.0.0''
   \<and> LastAttemptedRevision (Status attemptedRelease) = Revision exampleArtifact
   \<and> requestsForHelmChartChange exampleReconciler (HelmChartObject exampleHelmChart) =
       [\<lparr>RefNamespace = ''apps'', RefName = ''web''\<rparr>]"
  using requestsForHelmChartChange_requests[where hc = "exampleHelmChart\<lparr>hcArtifact := None\<rparr>"
          and r = exampleReconciler]
        requestsForHelmChartChange_requests[where hc = exampleHelmChart and a = exampleArtifact
          and r = exampleReconciler and items = "[exampleRelease, attemptedRelease]"]
  by (simp add: eval_defs example_defs ObjectKey_def attemptedRelease_def)

section \<open>The release reconciliation\<close>

lemma reconcileRelease_reaches:
  assumes "reachesTargetCheck r obj hc a ch vals g"
  shows "reconcileRelease r obj = releaseStage r (markedReconciling obj) ch vals g (resolveActions r obj a)"
proof -
  obtain acts where gh: "getHelmChart r (markedReconciling obj) = (Inr hc, acts)"
    using assms by (cases "getHelmChart r (markedReconciling obj)") (simp add: reachesTargetCheck_def)
  show ?thesis
    using assms gh
    by (simp add: reconcileRelease_def reachesTargetCheck_def resolveActions_def Let_def)
qed

lemma getHelmChart_actions:
  "snd (getHelmChart r obj) = [] \<or> (\<exists>ref. snd (getHelmChart r obj) = [ActGetChart ref])"
  by (auto simp: getHelmChart_def Let_def split: prod.splits option.splits sum.splits)

lemma resolveActions_no_deployment:
  "\<not> list_ex isAtomicRelease (resolveActions r obj a) \<and> \<not> list_ex isUninstall (resolveActions r obj a)"
  using getHelmChart_actions[of r "markedReconciling obj"]
  by (auto simp: resolveActions_def)

lemma markedReconciling_fields:
  "ObjectMeta (markedReconciling obj) = ObjectMeta obj"
  "Spec (markedReconciling obj) = Spec obj"
  "InstallFailures (Status (markedReconciling obj)) = InstallFailures (Status obj)"
  "UpgradeFailures (Status (markedReconciling obj)) = UpgradeFailures (Status obj)"
  "Failures (Status (markedReconciling obj)) = Failures (Status obj)"
  "LastAttemptedRevision (Status (markedReconciling obj)) = LastAttemptedRevision (Status obj)"
  "LastAttemptedConfigDigest (Status (markedReconciling obj)) = LastAttemptedConfigDigest (Status obj)"
  "History (Status (markedReconciling obj)) = History (Status obj)"
  "StorageNamespace (Status (markedReconciling obj)) = StorageNamespace (Status obj)"
  by (simp_all add: markedReconciling_def setConditions_def)

lemma checkDependenciesLoop_marked:
  "checkDependenciesLoop r (markedReconciling obj) ds = checkDependenciesLoop r obj ds"
  by (induction ds) (auto simp: dependencyRef_def markedReconciling_fields Let_def split: sum.splits)

lemma checkDependencies_marked:
  "checkDependencies r (markedReconciling obj) = checkDependencies r obj"
  by (simp add: checkDependencies_def checkDependenciesLoop_marked markedReconciling_fields)

lemma prepareAttempt_counters:
  "InstallFailures (Status (prepareAttempt r obj ch vals)) =
     (if MustResetFailures r obj (Metadata ch) vals then 0 else InstallFailures (Status obj))"
  "UpgradeFailures (Status (prepareAttempt r obj ch vals)) =
     (if MustResetFailures r obj (Metadata ch) vals then 0 else UpgradeFailures (Status obj))"
  "Failures (Status (prepareAttempt r obj ch vals)) =
     (if MustResetFailures r obj (Metadata ch) vals then 0 else Failures (Status obj))"
  by (simp_all add: prepareAttempt_def resetFailures_def setLastAttempt_def MustResetFailures_def Let_def)

lemma prepareAttempt_last:
  "LastAttemptedRevision (Status (prepareAttempt r obj ch vals)) = Version (Metadata ch)"
  "LastAttemptedConfigDigest (Status (prepareAttempt r obj ch vals)) = DigestValues r vals"
  "LastAttemptedGeneration (Status (prepareAttempt r obj ch vals)) = Generation (ObjectMeta obj)"
  by (simp_all add: prepareAttempt_def resetFailures_def setLastAttempt_def Let_def)

lemma releaseStage_unchanged:
  assumes "\<not> ReleaseTargetChanged r obj (ChartName (Metadata ch))"
  shows "case NewConfigFactory r g (StorageNamespace (Status (prepareAttempt r obj ch vals))) of
           Inl err \<Rightarrow>
             releaseStage r obj ch vals g acts =
               failed (markNotReady ''FactoryError'' (Error err) (prepareAttempt r obj ch vals)) err acts
         | Inr cfg \<Rightarrow>
             actions (releaseStage r obj ch vals g acts) =
               acts @ [ActAtomicRelease (prepareAttempt r obj ch vals) ch vals]"
  using assms
  by (auto simp: releaseStage_def Let_def failed_def split: sum.splits prod.splits option.splits)

text \<open>
  C1. In a reconciliation that reaches the reset check (the target unchanged): if the
  chart's version or the digest of the composed values differs from the pair recorded
  in the status, the three failure counts are zero in the release as the attempt is
  recorded, whatever they were; if neither differs, the three counts are what they were.
  That release is the one handed to the atomic release reconciler, or returned marked
  not ready when the config factory cannot be built.
\<close>

theorem failure_counters_reset:
  assumes "reachesTargetCheck r obj hc a ch vals g"
      and "\<not> ReleaseTargetChanged r (markedReconciling obj) (ChartName (Metadata ch))"
  shows "let att = prepareAttempt r (markedReconciling obj) ch vals;
             differs = (Version (Metadata ch) \<noteq> LastAttemptedRevision (Status obj)
                        \<or> DigestValues r vals \<noteq> LastAttemptedConfigDigest (Status obj))
         in (differs \<longrightarrow>
               InstallFailures (Status att) = 0 \<and> UpgradeFailures (Status att) = 0
               \<and> Failures (Status att) = 0)
          \<and> (\<not> differs \<longrightarrow>
               InstallFailures (Status att) = InstallFailures (Status obj)
               \<and> UpgradeFailures (Status att) = UpgradeFailures (Status obj)
               \<and> Failures (Status att) = Failures (Status obj))
          \<and> (case NewConfigFactory r g (StorageNamespace (Status att)) of
                Inl err \<Rightarrow>
                  reconcileRelease r obj =
                    failed (markNotReady ''FactoryError'' (Error err) att) err (resolveActions r obj a)
              | Inr cfg \<Rightarrow>
                  actions (reconcileRelease r obj) =
                    resolveActions r obj a @ [ActAtomicRelease att ch vals])"
proof -
  have m: "MustResetFailures r (markedReconciling obj) (Metadata ch) vals =
             (Version (Metadata ch) \<noteq> LastAttemptedRevision (Status obj)
              \<or> DigestValues r vals \<noteq> LastAttemptedConfigDigest (Status obj))"
    by (simp add: MustResetFailures_def markedReconciling_fields)
  show ?thesis
    unfolding reconcileRelease_reaches[OF assms(1)]
    using releaseStage_unchanged[OF assms(2), where g = g and vals = vals and acts = "resolveActions r obj a"]
    by (simp add: Let_def prepareAttempt_counters m markedReconciling_fields)
qed

theorem failure_counters_reset_witness:
  "reachesTargetCheck exampleReconciler exampleRelease exampleHelmChart exampleArtifact
     exampleChart exampleValues (RESTClientGetter 0)
   \<and> \<not> ReleaseTargetChanged exampleReconciler (markedReconciling exampleRelease) ''web''
   \<and> UpgradeFailures (Status exampleRelease) = 3
   \<and> LastAttemptedRevision (Status exampleRelease) = ''1.0.0''
   \<and> UpgradeFailures (Status (prepareAttempt exampleReconciler (markedReconciling exampleRelease)
         exampleChart exampleValues)) = 0
   \<and> actions (reconcileRelease exampleReconciler exampleRelease) =
       [ActGetChart \<lparr>RefNamespace = ''apps'', RefName = ''apps-web''\<rparr>, ActComposeValues,
        ActLoadChart ''http://source/web-1.1.0.tgz'' ''sha256:ab'',
        ActAtomicRelease (prepareAttempt exampleReconciler (markedReconciling exampleRelease)
          exampleChart exampleValues) exampleChart exampleValues]
   \<and> reachesTargetCheck unchangedReconciler exampleRelease exampleHelmChart exampleArtifact
       \<lparr>Metadata = \<lparr>ChartName = ''web'', Version = ''1.0.0''\<rparr>\<rparr> [(''replicas'', ''1'')] (RESTClientGetter 0)
   \<and> UpgradeFailures (Status (prepareAttempt unchangedReconciler (markedReconciling exampleRelease)
         \<lparr>Metadata = \<lparr>ChartName = ''web'', Version = ''1.0.0''\<rparr>\<rparr> [(''replicas'', ''1'')])) = 3"
proof -
  have r1: "reachesTargetCheck exampleReconciler exampleRelease exampleHelmChart exampleArtifact
     exampleChart exampleValues (RESTClientGetter 0)"
    by (simp add: eval_defs example_defs)
  have t1: "\<not> ReleaseTargetChanged exampleReconciler (markedReconciling exampleRelease)
              (ChartName (Metadata exampleChart))"
    by (simp add: eval_defs example_defs)
  have r2: "reachesTargetCheck unchangedReconciler exampleRelease exampleHelmChart exampleArtifact
       \<lparr>Metadata = \<lparr>ChartName = ''web'', Version = ''1.0.0''\<rparr>\<rparr> [(''replicas'', ''1'')] (RESTClientGetter 0)"
    by (simp add: eval_defs example_defs)
  have t2: "\<not> ReleaseTargetChanged unchangedReconciler (markedReconciling exampleRelease)
              (ChartName (Metadata \<lparr>Metadata = \<lparr>ChartName = ''web'', Version = ''1.0.0''\<rparr>\<rparr>))"
    by (simp add: eval_defs example_defs)
  show ?thesis
    using r1 t1 r2 failure_counters_reset[OF r1 t1] failure_counters_reset[OF r2 t2]
    by (simp add: eval_defs example_defs)
qed

lemma dependencyReady_marked:
  "dependencyReady r (markedReconciling obj) d = dependencyReady r obj d"
  by (simp add: dependencyReady_def dependencyRef_def markedReconciling_fields Let_def)

lemma markNotReady_Ready:
  "Conditions (Status (markNotReady reason msg obj)) ReadyCondition =
     Some \<lparr>CondStatus = ConditionFalse, Reason = reason, Message = msg\<rparr>"
  by (simp add: markNotReady_def setConditions_def MarkFalse_def)

text \<open>
  C3. When at least one dependency of the release is not ready (missing, unreadable,
  stale or not Ready), \<^verbatim>\<open>reconcileRelease\<close> reads no chart object, loads no chart and
  runs no release action: its only action is the event. It marks the release not ready
  with the reason DependencyNotReady and the error of the dependency check as message,
  and returns a requeue after the reconciler's fixed \<open>requeueDependency\<close> interval with
  no error.
\<close>

theorem dependency_gate:
  assumes "\<exists>d \<in> set (DependsOn (Spec obj)). \<not> dependencyReady r obj d"
  shows "\<exists>err. checkDependencies r obj = Some err
     \<and> result (reconcileRelease r obj) = \<lparr>Requeue = False, RequeueAfter = requeueDependency r\<rparr>
     \<and> retErr (reconcileRelease r obj) = None
     \<and> Conditions (Status (object (reconcileRelease r obj))) ReadyCondition =
         Some \<lparr>CondStatus = ConditionFalse, Reason = DependencyNotReadyReason, Message = Error err\<rparr>
     \<and> actions (reconcileRelease r obj) = [ActEvent EventSeverityInfo DependencyNotReadyReason (Error err)]
     \<and> \<not> list_ex isChartResolution (actions (reconcileRelease r obj))
     \<and> \<not> list_ex isAtomicRelease (actions (reconcileRelease r obj))"
proof -
  from assms have ne: "DependsOn (Spec obj) \<noteq> []" by auto
  from assms have "checkDependencies r obj \<noteq> None"
    unfolding checkDependencies_def using loop_None_iff[of r obj "DependsOn (Spec obj)"] by blast
  then obtain err where e: "checkDependencies r obj = Some err" by auto
  have "reconcileRelease r obj =
          \<lparr>result = \<lparr>Requeue = False, RequeueAfter = requeueDependency r\<rparr>, retErr = None,
           object = markNotReady DependencyNotReadyReason (Error err) (markedReconciling obj),
           actions = [ActEvent EventSeverityInfo DependencyNotReadyReason (Error err)]\<rparr>"
    using ne e by (simp add: reconcileRelease_def Let_def checkDependencies_marked markedReconciling_fields)
  then show ?thesis using e by (simp add: markNotReady_Ready)
qed

theorem dependency_gate_witness:
  "\<not> dependencyReady missingDependencyReconciler exampleRelease \<lparr>DepNamespace = [], DepName = ''db''\<rparr>
   \<and> \<lparr>DepNamespace = [], DepName = ''db''\<rparr> \<in> set (DependsOn (Spec exampleRelease))
   \<and> result (reconcileRelease missingDependencyReconciler exampleRelease) = \<lparr>Requeue = False, RequeueAfter = 30\<rparr>
   \<and> retErr (reconcileRelease missingDependencyReconciler exampleRelease) = None"
proof -
  have h: "\<exists>d \<in> set (DependsOn (Spec exampleRelease)). \<not> dependencyReady missingDependencyReconciler exampleRelease d"
    by (simp add: eval_defs example_defs)
  show ?thesis using dependency_gate[OF h] by (simp add: eval_defs example_defs)
qed

text \<open>
  C6. When the dependency gate passes and getting the chart object fails with an access
  denied error, \<^verbatim>\<open>reconcileRelease\<close> returns the zero result and the error wrapped as
  a terminal error; the release has the Stalled condition true and the Ready condition
  false, both with the reason AccessDenied and the error's message, and no Reconciling
  condition; no release action is run, and the deferred patch is asked to record the
  observed generation.
\<close>

theorem access_denied_stalled:
  assumes "checkDependencies r obj = None"
      and "fst (getHelmChart r (markedReconciling obj)) = Inl err"
      and "IsAccessDenied err"
  shows "result (reconcileRelease r obj) = zeroResult
     \<and> retErr (reconcileRelease r obj) = Some (TerminalError err)
     \<and> IsTerminal (TerminalError err)
     \<and> Conditions (Status (object (reconcileRelease r obj))) StalledCondition =
         Some \<lparr>CondStatus = ConditionTrue, Reason = AccessDeniedReason, Message = Error err\<rparr>
     \<and> Conditions (Status (object (reconcileRelease r obj))) ReadyCondition =
         Some \<lparr>CondStatus = ConditionFalse, Reason = AccessDeniedReason, Message = Error err\<rparr>
     \<and> Conditions (Status (object (reconcileRelease r obj))) ReconcilingCondition = None
     \<and> \<not> list_ex isAtomicRelease (actions (reconcileRelease r obj))
     \<and> \<not> list_ex isUninstall (actions (reconcileRelease r obj))
     \<and> WithStatusObservedGeneration \<in> set (patchOptions r (result (reconcileRelease r obj))
           (retErr (reconcileRelease r obj)))"
proof -
  obtain acts where gh: "getHelmChart r (markedReconciling obj) = (Inl err, acts)"
    using assms(2) by (cases "getHelmChart r (markedReconciling obj)") simp
  have a: "acts = [] \<or> (\<exists>ref. acts = [ActGetChart ref])"
    using getHelmChart_actions[of r "markedReconciling obj"] gh by simp
  have "reconcileRelease r obj =
          failed
            (setConditions (\<lambda>cs. Delete cs ReconcilingCondition)
              (markNotReady AccessDeniedReason (Error err)
                (setConditions (\<lambda>cs. MarkStalled cs AccessDeniedReason (Error err)) (markedReconciling obj))))
            (TerminalError err) acts"
    using assms gh by (simp add: reconcileRelease_def Let_def checkDependencies_marked)
  then show ?thesis using a
    by (auto simp: failed_def setConditions_def markNotReady_def MarkStalled_def MarkTrue_def
        MarkFalse_def Delete_def IsTerminal_def patchOptions_def Let_def)
qed

theorem access_denied_stalled_witness:
  "checkDependencies deniedReconciler exampleRelease = None
   \<and> fst (getHelmChart deniedReconciler (markedReconciling exampleRelease)) =
       Inl (AccessDeniedError ''cross-namespace references are not allowed'')
   \<and> IsAccessDenied (AccessDeniedError ''cross-namespace references are not allowed'')
   \<and> retErr (reconcileRelease deniedReconciler exampleRelease) =
       Some (TerminalError (AccessDeniedError ''cross-namespace references are not allowed''))
   \<and> result (reconcileRelease deniedReconciler exampleRelease) = \<lparr>Requeue = False, RequeueAfter = 0\<rparr>
   \<and> actions (reconcileRelease deniedReconciler exampleRelease) = []"
proof -
  have h1: "checkDependencies deniedReconciler exampleRelease = None"
    by (simp add: eval_defs example_defs)
  have h2: "fst (getHelmChart deniedReconciler (markedReconciling exampleRelease)) =
       Inl (AccessDeniedError ''cross-namespace references are not allowed'')"
    by (simp add: eval_defs example_defs)
  have h3: "IsAccessDenied (AccessDeniedError ''cross-namespace references are not allowed'')"
    by (simp add: eval_defs)
  show ?thesis using h1 h2 h3 access_denied_stalled[OF h1 h2 h3]
    by (simp add: eval_defs example_defs reconcileRelease_def)
qed

text \<open>
  C9. In a reconciliation that reaches the target check and finds the target unchanged,
  the release is prepared in this order: the storage namespace is set, the failure
  counts are reset by a check that still sees the previous pair of last attempted
  revision and digest, and only then the pair is set to the loaded chart's version and
  the digest of the composed values. No release action precedes this, and the release
  handed to the atomic release reconciler (or returned, marked not ready, when the config
  factory fails) carries the new pair.
\<close>

theorem last_attempt_recorded:
  assumes "reachesTargetCheck r obj hc a ch vals g"
      and "\<not> ReleaseTargetChanged r (markedReconciling obj) (ChartName (Metadata ch))"
  shows "let stored = (markedReconciling obj)\<lparr>Status := (Status (markedReconciling obj))
                        \<lparr>StorageNamespace := GetStorageNamespace r (markedReconciling obj)\<rparr>\<rparr>;
             att = prepareAttempt r (markedReconciling obj) ch vals
         in att = setLastAttempt r (resetFailures r stored (Metadata ch) vals) ch vals
          \<and> LastAttemptedRevision (Status stored) = LastAttemptedRevision (Status obj)
          \<and> LastAttemptedConfigDigest (Status stored) = LastAttemptedConfigDigest (Status obj)
          \<and> LastAttemptedRevision (Status att) = Version (Metadata ch)
          \<and> LastAttemptedConfigDigest (Status att) = DigestValues r vals
          \<and> \<not> list_ex isAtomicRelease (resolveActions r obj a)
          \<and> \<not> list_ex isUninstall (resolveActions r obj a)
          \<and> (case NewConfigFactory r g (StorageNamespace (Status att)) of
                Inl err \<Rightarrow>
                  reconcileRelease r obj =
                    failed (markNotReady ''FactoryError'' (Error err) att) err (resolveActions r obj a)
              | Inr cfg \<Rightarrow>
                  actions (reconcileRelease r obj) =
                    resolveActions r obj a @ [ActAtomicRelease att ch vals])"
  unfolding reconcileRelease_reaches[OF assms(1)]
  using releaseStage_unchanged[OF assms(2), where g = g and vals = vals and acts = "resolveActions r obj a"]
        resolveActions_no_deployment[of r obj a]
  by (simp add: Let_def prepareAttempt_last markedReconciling_fields)
     (simp add: prepareAttempt_def Let_def)

theorem last_attempt_recorded_witness:
  "reachesTargetCheck exampleReconciler exampleRelease exampleHelmChart exampleArtifact
     exampleChart exampleValues (RESTClientGetter 0)
   \<and> \<not> ReleaseTargetChanged exampleReconciler (markedReconciling exampleRelease) ''web''
   \<and> LastAttemptedRevision (Status exampleRelease) = ''1.0.0''
   \<and> LastAttemptedConfigDigest (Status exampleRelease) = ''replicas=1''
   \<and> LastAttemptedRevision (Status (prepareAttempt exampleReconciler (markedReconciling exampleRelease)
         exampleChart exampleValues)) = ''1.1.0''
   \<and> LastAttemptedConfigDigest (Status (prepareAttempt exampleReconciler (markedReconciling exampleRelease)
         exampleChart exampleValues)) = ''replicas=2''
   \<and> actions (reconcileRelease exampleReconciler exampleRelease) =
       [ActGetChart \<lparr>RefNamespace = ''apps'', RefName = ''apps-web''\<rparr>, ActComposeValues,
        ActLoadChart ''http://source/web-1.1.0.tgz'' ''sha256:ab'',
        ActAtomicRelease (prepareAttempt exampleReconciler (markedReconciling exampleRelease)
          exampleChart exampleValues) exampleChart exampleValues]"
proof -
  have r1: "reachesTargetCheck exampleReconciler exampleRelease exampleHelmChart exampleArtifact
     exampleChart exampleValues (RESTClientGetter 0)"
    by (simp add: eval_defs example_defs)
  have t1: "\<not> ReleaseTargetChanged exampleReconciler (markedReconciling exampleRelease)
              (ChartName (Metadata exampleChart))"
    by (simp add: eval_defs example_defs)
  show ?thesis
    using r1 t1 last_attempt_recorded[OF r1 t1]
    by (simp add: eval_defs example_defs)
qed

lemma reconcileUninstall_actions:
  "snd (snd (reconcileUninstall r g obj)) =
     (case NewConfigFactory r g (StorageNamespace (Status obj)) of Inl err \<Rightarrow> [] | Inr cfg \<Rightarrow> [ActUninstall obj])"
  by (simp add: reconcileUninstall_def split: sum.splits prod.splits)

lemma releaseStage_changed:
  assumes "ReleaseTargetChanged r obj (ChartName (Metadata ch))"
  shows "releaseStage r obj ch vals g acts =
     (case reconcileUninstall r g obj of
        (err, obj', a) \<Rightarrow>
          if (case err of None \<Rightarrow> True | Some e \<Rightarrow> IsNoCurrent e)
          then \<lparr>result = \<lparr>Requeue = True, RequeueAfter = 0\<rparr>, retErr = None,
                object = clearTarget obj', actions = acts @ a\<rparr>
          else \<lparr>result = zeroResult, retErr = err, object = obj', actions = acts @ a\<rparr>)"
  using assms by (auto simp: releaseStage_def failed_def split: prod.splits option.splits)

text \<open>
  C2, as the code has it. In a reconciliation that reaches the target check and finds the
  target changed, no install or upgrade is attempted and at most one uninstall is run:
  none when the config factory of the old storage namespace cannot be built, otherwise
  exactly one, on the release as it stood. When that uninstall returns no error, or the
  error that there is no current release, the history and the storage namespace are
  cleared and an immediate requeue is returned with no error. When it returns any other
  error, that error is returned with the zero result and the controller clears nothing.
\<close>

theorem target_change_uninstall:
  assumes "reachesTargetCheck r obj hc a ch vals g"
      and "ReleaseTargetChanged r (markedReconciling obj) (ChartName (Metadata ch))"
  shows "\<not> list_ex isAtomicRelease (actions (reconcileRelease r obj))
     \<and> length (filter isUninstall (actions (reconcileRelease r obj))) \<le> 1
     \<and> (case NewConfigFactory r g (StorageNamespace (Status obj)) of
           Inl err \<Rightarrow> filter isUninstall (actions (reconcileRelease r obj)) = []
         | Inr cfg \<Rightarrow>
             filter isUninstall (actions (reconcileRelease r obj)) = [ActUninstall (markedReconciling obj)]
             \<and> (case UninstallReconcile r cfg (markedReconciling obj) of
                  (err, obj') \<Rightarrow>
                    if (case err of None \<Rightarrow> True | Some e \<Rightarrow> IsNoCurrent e)
                    then result (reconcileRelease r obj) = \<lparr>Requeue = True, RequeueAfter = 0\<rparr>
                         \<and> retErr (reconcileRelease r obj) = None
                         \<and> object (reconcileRelease r obj) = clearTarget obj'
                         \<and> History (Status (object (reconcileRelease r obj))) = emptyReleaseHistory
                         \<and> StorageNamespace (Status (object (reconcileRelease r obj))) = []
                    else result (reconcileRelease r obj) = zeroResult
                         \<and> retErr (reconcileRelease r obj) = err
                         \<and> object (reconcileRelease r obj) = obj'))"
proof -
  have nd: "\<not> list_ex isAtomicRelease (resolveActions r obj a)"
           "filter isUninstall (resolveActions r obj a) = []"
    using resolveActions_no_deployment[of r obj a] by (auto simp: list_ex_iff filter_empty_conv)
  show ?thesis
    unfolding reconcileRelease_reaches[OF assms(1)] releaseStage_changed[OF assms(2)]
    using nd
    by (auto simp: reconcileUninstall_def markedReconciling_fields clearTarget_def
        split: sum.splits prod.splits option.splits)
qed

theorem target_change_uninstall_witness:
  "reachesTargetCheck exampleReconciler movedRelease exampleHelmChart exampleArtifact
     exampleChart exampleValues (RESTClientGetter 0)
   \<and> ReleaseTargetChanged exampleReconciler (markedReconciling movedRelease) ''web''
   \<and> actions (reconcileRelease exampleReconciler movedRelease) =
       [ActGetChart \<lparr>RefNamespace = ''apps'', RefName = ''apps-web''\<rparr>, ActComposeValues,
        ActLoadChart ''http://source/web-1.1.0.tgz'' ''sha256:ab'',
        ActUninstall (markedReconciling movedRelease)]
   \<and> result (reconcileRelease exampleReconciler movedRelease) = \<lparr>Requeue = True, RequeueAfter = 0\<rparr>
   \<and> retErr (reconcileRelease exampleReconciler movedRelease) = None
   \<and> History (Status (object (reconcileRelease exampleReconciler movedRelease))) =
       \<lparr>currentDeployment = None, history = []\<rparr>
   \<and> StorageNamespace (Status (object (reconcileRelease exampleReconciler movedRelease))) = []"
proof -
  have r1: "reachesTargetCheck exampleReconciler movedRelease exampleHelmChart exampleArtifact
     exampleChart exampleValues (RESTClientGetter 0)"
    by (simp add: eval_defs example_defs)
  have t1: "ReleaseTargetChanged exampleReconciler (markedReconciling movedRelease)
              (ChartName (Metadata exampleChart))"
    by (simp add: eval_defs example_defs)
  have acts: "actions (reconcileRelease exampleReconciler movedRelease) =
       [ActGetChart \<lparr>RefNamespace = ''apps'', RefName = ''apps-web''\<rparr>, ActComposeValues,
        ActLoadChart ''http://source/web-1.1.0.tgz'' ''sha256:ab'',
        ActUninstall (markedReconciling movedRelease)]"
    by (simp add: reconcileRelease_def releaseStage_def eval_defs example_defs)
  show ?thesis
    using r1 t1 acts target_change_uninstall[OF r1 t1]
    by (simp add: eval_defs example_defs)
qed

text \<open>
  C2 as stated fails where the uninstall fails: the target has changed and one uninstall
  is run, but the current deployment and the storage namespace stay as they were and
  the result asks for no requeue; the error is returned instead.
\<close>

theorem target_change_counterexample:
  "reachesTargetCheck failingUninstallReconciler movedRelease exampleHelmChart exampleArtifact
     exampleChart exampleValues (RESTClientGetter 0)
   \<and> ReleaseTargetChanged failingUninstallReconciler (markedReconciling movedRelease) ''web''
   \<and> filter isUninstall (actions (reconcileRelease failingUninstallReconciler movedRelease)) =
       [ActUninstall (markedReconciling movedRelease)]
   \<and> result (reconcileRelease failingUninstallReconciler movedRelease) = \<lparr>Requeue = False, RequeueAfter = 0\<rparr>
   \<and> retErr (reconcileRelease failingUninstallReconciler movedRelease) = Some (OtherError ''uninstall failed'')
   \<and> currentDeployment (History (Status (object (reconcileRelease failingUninstallReconciler movedRelease)))) =
       Some \<lparr>DeployedNamespace = ''apps'', DeployedName = ''web'', DeployedChartName = ''old-web'',
             DeployedChartVersion = ''1.0.0'', DeployedConfigDigest = ''replicas=1''\<rparr>
   \<and> StorageNamespace (Status (object (reconcileRelease failingUninstallReconciler movedRelease))) = ''apps''"
  by (simp add: reconcileRelease_def releaseStage_def eval_defs example_defs)

section \<open>Reconcile\<close>

text \<open>
  For a release that is not under deletion, carries the finalizer and is not suspended,
  the body of \<^verbatim>\<open>Reconcile\<close> reconciles the chart template and, when that succeeds,
  is \<^verbatim>\<open>reconcileRelease\<close> on the release the template reconciler left.
\<close>

lemma reconcileBody_release:
  assumes "DeletionTimestamp (ObjectMeta obj) = None"
      and "HelmReleaseFinalizer \<in> set (Finalizers (ObjectMeta obj))"
      and "\<not> Suspend (Spec obj)"
      and "HelmChartTemplateReconcile r obj = (None, obj')"
  shows "reconcileBody r obj =
           (reconcileRelease r obj')\<lparr>actions := ActChartTemplate obj # actions (reconcileRelease r obj')\<rparr>"
  using assms by (simp add: reconcileBody_def reconcileChartTemplate_def Let_def)

text \<open>
  C5, as the code has it. For a release that is suspended, carries the finalizer and is
  not under deletion, the body of \<^verbatim>\<open>Reconcile\<close> returns the zero result and no error,
  leaves the release as it was read and does nothing; \<^verbatim>\<open>Reconcile\<close> then returns the
  zero result, and its error is that of the deferred patch (none when the patch
  succeeds). The only action is that patch, of the unchanged release, asked to record
  the observed generation.
\<close>

theorem suspended_noop:
  assumes "GetHelmRelease r req = Inr obj"
      and "Suspend (Spec obj)"
      and "HelmReleaseFinalizer \<in> set (Finalizers (ObjectMeta obj))"
      and "DeletionTimestamp (ObjectMeta obj) = None"
  shows "reconcileBody r obj = \<lparr>result = zeroResult, retErr = None, object = obj, actions = []\<rparr>
     \<and> Reconcile r req =
         (zeroResult,
          Patch r obj [WithFieldOwner (FieldManager r), WithOwnedConditions, WithStatusObservedGeneration],
          [ActPatch obj [WithFieldOwner (FieldManager r), WithOwnedConditions, WithStatusObservedGeneration]])"
proof -
  have b: "reconcileBody r obj = \<lparr>result = zeroResult, retErr = None, object = obj, actions = []\<rparr>"
    using assms by (simp add: reconcileBody_def)
  show ?thesis
    using assms(1)
    by (simp add: b Reconcile_def deferredPatch_def patchOptions_def IsZero_def Let_def
        split: option.splits)
qed

theorem suspended_noop_witness:
  "GetHelmRelease failingPatchReconciler \<lparr>RefNamespace = ''apps'', RefName = ''web''\<rparr> = Inr suspendedRelease
   \<and> Suspend (Spec suspendedRelease)
   \<and> HelmReleaseFinalizer \<in> set (Finalizers (ObjectMeta suspendedRelease))
   \<and> DeletionTimestamp (ObjectMeta suspendedRelease) = None
   \<and> Reconcile failingPatchReconciler \<lparr>RefNamespace = ''apps'', RefName = ''web''\<rparr> =
       (\<lparr>Requeue = False, RequeueAfter = 0\<rparr>, Some (OtherError ''conflict''),
        [ActPatch suspendedRelease
          [WithFieldOwner ''helm-controller'', WithOwnedConditions, WithStatusObservedGeneration]])"
proof -
  have h1: "GetHelmRelease failingPatchReconciler \<lparr>RefNamespace = ''apps'', RefName = ''web''\<rparr> = Inr suspendedRelease"
    by (simp add: example_defs)
  have h2: "Suspend (Spec suspendedRelease)" by (simp add: example_defs)
  have h3: "HelmReleaseFinalizer \<in> set (Finalizers (ObjectMeta suspendedRelease))" by (simp add: example_defs)
  have h4: "DeletionTimestamp (ObjectMeta suspendedRelease) = None" by (simp add: example_defs)
  show ?thesis using h1 h2 h3 h4 suspended_noop[OF h1 h2 h3 h4]
    by (simp add: zeroResult_def failingPatchReconciler_def exampleReconciler_def)
qed

text \<open>
  C5 as stated fails where the deferred patch fails: the release is suspended, carries
  the finalizer and is not under deletion, and \<^verbatim>\<open>Reconcile\<close> returns the patch's error.
\<close>

theorem suspended_counterexample:
  "GetHelmRelease failingPatchReconciler \<lparr>RefNamespace = ''apps'', RefName = ''web''\<rparr> = Inr suspendedRelease
   \<and> Suspend (Spec suspendedRelease)
   \<and> HelmReleaseFinalizer \<in> set (Finalizers (ObjectMeta suspendedRelease))
   \<and> DeletionTimestamp (ObjectMeta suspendedRelease) = None
   \<and> fst (snd (Reconcile failingPatchReconciler \<lparr>RefNamespace = ''apps'', RefName = ''web''\<rparr>)) =
       Some (OtherError ''conflict'')"
  by (simp add: Reconcile_def reconcileBody_def deferredPatch_def patchOptions_def IsZero_def Let_def
      zeroResult_def example_defs)

text \<open>
  C7. When the release has been read and the deferred patch fails: if the reconciliation
  itself returned an error, \<^verbatim>\<open>Reconcile\<close> returns the aggregate of that error and the
  patch's error, in this order; if it returned none, \<^verbatim>\<open>Reconcile\<close> returns the patch's
  error. The result is the reconciliation's own.
\<close>

theorem patch_error_aggregated:
  assumes "GetHelmRelease r req = Inr obj"
      and "Patch r (object (reconcileBody r obj))
             (patchOptions r (result (reconcileBody r obj)) (retErr (reconcileBody r obj))) = Some perr"
  shows "fst (Reconcile r req) = result (reconcileBody r obj)
     \<and> fst (snd (Reconcile r req)) =
         (case retErr (reconcileBody r obj) of
            Some e \<Rightarrow> Some (Aggregate [e, perr])
          | None \<Rightarrow> Some perr)"
  using assms
  by (auto simp: Reconcile_def deferredPatch_def Let_def split: option.splits)

theorem patch_error_aggregated_witness:
  "GetHelmRelease failingTemplateAndPatchReconciler \<lparr>RefNamespace = ''apps'', RefName = ''web''\<rparr> = Inr exampleRelease
   \<and> retErr (reconcileBody failingTemplateAndPatchReconciler exampleRelease) = Some (OtherError ''template failed'')
   \<and> fst (snd (Reconcile failingTemplateAndPatchReconciler \<lparr>RefNamespace = ''apps'', RefName = ''web''\<rparr>)) =
       Some (Aggregate [OtherError ''template failed'', OtherError ''conflict''])
   \<and> GetHelmRelease failingPatchReconciler \<lparr>RefNamespace = ''apps'', RefName = ''web''\<rparr> = Inr suspendedRelease
   \<and> retErr (reconcileBody failingPatchReconciler suspendedRelease) = None
   \<and> fst (snd (Reconcile failingPatchReconciler \<lparr>RefNamespace = ''apps'', RefName = ''web''\<rparr>)) =
       Some (OtherError ''conflict'')"
proof -
  have g1: "GetHelmRelease failingTemplateAndPatchReconciler \<lparr>RefNamespace = ''apps'', RefName = ''web''\<rparr> = Inr exampleRelease"
    by (simp add: example_defs)
  have p1: "Patch failingTemplateAndPatchReconciler (object (reconcileBody failingTemplateAndPatchReconciler exampleRelease))
             (patchOptions failingTemplateAndPatchReconciler
               (result (reconcileBody failingTemplateAndPatchReconciler exampleRelease))
               (retErr (reconcileBody failingTemplateAndPatchReconciler exampleRelease))) = Some (OtherError ''conflict'')"
    by (simp add: example_defs)
  have b1: "retErr (reconcileBody failingTemplateAndPatchReconciler exampleRelease) = Some (OtherError ''template failed'')"
    by (simp add: reconcileBody_def reconcileChartTemplate_def failed_def example_defs)
  have g2: "GetHelmRelease failingPatchReconciler \<lparr>RefNamespace = ''apps'', RefName = ''web''\<rparr> = Inr suspendedRelease"
    by (simp add: example_defs)
  have p2: "Patch failingPatchReconciler (object (reconcileBody failingPatchReconciler suspendedRelease))
             (patchOptions failingPatchReconciler
               (result (reconcileBody failingPatchReconciler suspendedRelease))
               (retErr (reconcileBody failingPatchReconciler suspendedRelease))) = Some (OtherError ''conflict'')"
    by (simp add: example_defs)
  have b2: "retErr (reconcileBody failingPatchReconciler suspendedRelease) = None"
    by (simp add: reconcileBody_def example_defs)
  show ?thesis
    using g1 b1 g2 b2 patch_error_aggregated[OF g1 p1] patch_error_aggregated[OF g2 p2]
    by simp
qed

end
